theory Spec2Isabelle
  imports Complex_Main
begin

section \<open>Text\<close>

text \<open>
  A Python \<open>str\<close> is modelled as a \<open>string\<close>: a list of 8-bit characters, read as the
  code points below 256. Every character the harvester tests for (\<open>&\<close>, \<open>;\<close>, \<open>#\<close>,
  \<open>:\<close>, ASCII letters and digits, white space) lies in that range.
\<close>

definition is_alpha :: "char \<Rightarrow> bool" where
  "is_alpha c \<longleftrightarrow>
     (let n = of_char c :: nat in (65 \<le> n \<and> n \<le> 90) \<or> (97 \<le> n \<and> n \<le> 122))"

definition is_digit :: "char \<Rightarrow> bool" where
  "is_digit c \<longleftrightarrow> (let n = of_char c :: nat in 48 \<le> n \<and> n \<le> 57)"

definition is_alnum :: "char \<Rightarrow> bool" where
  "is_alnum c \<longleftrightarrow> is_alpha c \<or> is_digit c"


section \<open>Exceptions\<close>

text \<open>
  Every exception the modelled code lets escape is a value. \<open>HTTPError\<close> carries the
  status code; \<open>XMLParseError\<close> is the \<^verbatim>\<open>RuntimeError\<close> of \<^verbatim>\<open>fetch_and_parse\<close> and
  carries the text written to the diagnostic dump.
\<close>

datatype error =
    HTTPError int
  | NetworkError
  | XMLParseError string
  | AttributeError
  | SyntaxError
  | JSONDecodeError

section \<open>The ampersand repair: \<open>AMP_FIX\<close>\<close>

text \<open>
  \<^verbatim>\<open>AMP_FIX = re.compile(r'&(?![A-Za-z#][A-Za-z0-9]*;)')\<close>

  \<open>entity_tail cs\<close> is the look-ahead \<^verbatim>\<open>[A-Za-z#][A-Za-z0-9]*;\<close> matched at the head of
  \<open>cs\<close>: one letter or \<open>#\<close>, a run of letters and digits, then \<open>;\<close>. The run is
  followed by \<open>;\<close>, which is not in the run's class, so only the longest run can match.
\<close>

definition entity_tail :: "string \<Rightarrow> bool" where
  "entity_tail cs =
     (case cs of
        [] \<Rightarrow> False
      | c # rest \<Rightarrow>
          (is_alpha c \<or> c = CHR ''#'') \<and>
          (case dropWhile is_alnum rest of [] \<Rightarrow> False | d # _ \<Rightarrow> d = CHR '';''))"

text \<open>
  \<^verbatim>\<open>AMP_FIX.sub("&amp;", text)\<close>: the pattern consumes the single character \<open>&\<close>, the
  look-ahead reads the original text, and the scan goes on after the \<open>&\<close>.
\<close>

fun amp_fix :: "string \<Rightarrow> string" where
  "amp_fix [] = []"
| "amp_fix (c # cs) =
     (if c = CHR ''&'' \<and> \<not> entity_tail cs then ''&amp;'' @ amp_fix cs
      else c # amp_fix cs)"


text \<open>No \<open>&\<close> of the text fails the look-ahead.\<close>

fun no_bare_amp :: "string \<Rightarrow> bool" where
  "no_bare_amp [] = True"
| "no_bare_amp (c # cs) = ((c \<noteq> CHR ''&'' \<or> entity_tail cs) \<and> no_bare_amp cs)"






section \<open>Cleaning and parsing a response: \<open>clean_xml\<close>, \<open>fetch_and_parse\<close>\<close>




section \<open>Downloading with retries: \<open>safe_open_url\<close>\<close>











section \<open>XML elements and the paths the harvester uses\<close>

text \<open>
  An element of \<^verbatim>\<open>xml.etree.ElementTree\<close>: its tag in the form \<open>{uri}local\<close>, its text
  (\<open>None\<close> when there is none) and its children in document order. Attributes and tails
  are never read by the harvester.
\<close>

datatype element = Element (tag: string) (etext: "string option") (children: "element list")

text \<open>The prefix map \<^verbatim>\<open>NS\<close>.\<close>

definition NS :: "string \<Rightarrow> string option" where
  "NS = map_of
     [(''oai'', ''http://www.openarchives.org/OAI/2.0/''),
      (''edm'', ''http://www.europeana.eu/schemas/edm/''),
      (''dc'', ''http://purl.org/dc/elements/1.1/''),
      (''dcterms'', ''http://purl.org/dc/terms/''),
      (''ore'', ''http://www.openarchives.org/ore/terms/'')]"

definition clark :: "string \<Rightarrow> string \<Rightarrow> string" where
  "clark uri local = ''{'' @ uri @ ''}'' @ local"

definition oai :: "string \<Rightarrow> string" where
  "oai local = clark ''http://www.openarchives.org/OAI/2.0/'' local"

definition edm :: "string \<Rightarrow> string" where
  "edm local = clark ''http://www.europeana.eu/schemas/edm/'' local"

definition dc :: "string \<Rightarrow> string" where
  "dc local = clark ''http://purl.org/dc/elements/1.1/'' local"

text \<open>
  \<^verbatim>\<open>el.find("p:name", NS)\<close> and \<^verbatim>\<open>el.find("./p:name", NS)\<close>: the first child with
  the tag. \<^verbatim>\<open>el.iter()\<close>: the element and its descendants in document order.
  \<^verbatim>\<open>el.find(".//p:name", NS)\<close> and \<^verbatim>\<open>el.findall(".//p:name", NS)\<close>: the first, or all,
  of the descendants with the tag; the element itself is not among them.
\<close>

definition find_child :: "string \<Rightarrow> element \<Rightarrow> element option" where
  "find_child t el = find (\<lambda>e. tag e = t) (children el)"

fun iter :: "element \<Rightarrow> element list" where
  "iter (Element t x cs) = Element t x cs # concat (map iter cs)"

definition descendants :: "element \<Rightarrow> element list" where
  "descendants el = concat (map iter (children el))"

definition find_desc :: "string \<Rightarrow> element \<Rightarrow> element option" where
  "find_desc t el = find (\<lambda>e. tag e = t) (descendants el)"

definition findall_desc :: "string \<Rightarrow> element \<Rightarrow> element list" where
  "findall_desc t el = filter (\<lambda>e. tag e = t) (descendants el)"

text \<open>
  \<^verbatim>\<open>el.findtext(path, default="", namespaces=NS)\<close> for a child path: the text of the
  first match, \<open>""\<close> when its text is \<^verbatim>\<open>None\<close>, the default when nothing matches.
\<close>

definition findtext :: "string \<Rightarrow> element \<Rightarrow> string" where
  "findtext t el =
     (case find_child t el of
        None \<Rightarrow> []
      | Some e \<Rightarrow> (case etext e of None \<Rightarrow> [] | Some s \<Rightarrow> s))"

text \<open>
  Truth values of Python: a string is true when it is not empty, \<^verbatim>\<open>None\<close> is false, and
  an \<^verbatim>\<open>Element\<close> is true when it has at least one child (its \<^verbatim>\<open>__len__\<close>).
\<close>

definition truthy :: "string option \<Rightarrow> bool" where
  "truthy s = (case s of None \<Rightarrow> False | Some v \<Rightarrow> v \<noteq> [])"

definition element_true :: "element option \<Rightarrow> bool" where
  "element_true e = (case e of None \<Rightarrow> False | Some el \<Rightarrow> children el \<noteq> [])"

text \<open>\<^verbatim>\<open>a or b\<close> on two results of \<^verbatim>\<open>find\<close>.\<close>

definition element_or :: "element option \<Rightarrow> element option \<Rightarrow> element option" where
  "element_or a b = (if element_true a then a else b)"

text \<open>
  \<^verbatim>\<open>str.strip()\<close>: white space is removed at both ends. Below code point 256 the white
  space of Python is 9 to 13, 28 to 32, 133 and 160.
\<close>

definition is_space :: "char \<Rightarrow> bool" where
  "is_space c \<longleftrightarrow>
     (let n = of_char c :: nat
      in (9 \<le> n \<and> n \<le> 13) \<or> (28 \<le> n \<and> n \<le> 32) \<or> n = 133 \<or> n = 160)"

definition strip :: "string \<Rightarrow> string" where
  "strip s = rev (dropWhile is_space (rev (dropWhile is_space s)))"

section \<open>Field extraction: \<open>resolve_qname\<close>, \<open>extract_edm_field_from_record\<close>\<close>

text \<open>\<^verbatim>\<open>qname.split(":", 1)\<close>, for a name that contains a colon.\<close>

definition split_colon :: "string \<Rightarrow> string \<times> string" where
  "split_colon q = (takeWhile (\<lambda>c. c \<noteq> CHR '':'') q, drop 1 (dropWhile (\<lambda>c. c \<noteq> CHR '':'') q))"

definition resolve_qname :: "string \<Rightarrow> string" where
  "resolve_qname qname =
     (if CHR '':'' \<notin> set qname then qname
      else (let (prefix, local) = split_colon qname in
            if NS prefix = None then qname
            else ''.//'' @ prefix @ '':'' @ local))"

text \<open>
  \<^verbatim>\<open>md.find(xpath, NS)\<close> on the paths \<open>resolve_qname\<close> returns, the field name being one
  name token: after an optional \<open>.//\<close> comes a tag, which is taken as it is when it has
  no colon or is already of the form \<open>{uri}local\<close>, and is otherwise qualified through
  \<open>NS\<close>; a prefix that \<open>NS\<close> lacks is \<^verbatim>\<open>SyntaxError\<close>.
\<close>

definition qualify :: "string \<Rightarrow> string option" where
  "qualify name =
     (if CHR '':'' \<notin> set name \<or> take 1 name = ''{'' then Some name
      else (let (prefix, local) = split_colon name in
            case NS prefix of None \<Rightarrow> None | Some uri \<Rightarrow> Some (clark uri local)))"

definition find_path :: "string \<Rightarrow> element \<Rightarrow> error + element option" where
  "find_path xpath el =
     (if take 3 xpath = ''.//'' then
        (case qualify (drop 3 xpath) of
           None \<Rightarrow> Inl SyntaxError
         | Some t \<Rightarrow> Inr (find_desc t el))
      else
        (case qualify xpath of
           None \<Rightarrow> Inl SyntaxError
         | Some t \<Rightarrow> Inr (find_child t el)))"

definition text_of :: "element option \<Rightarrow> string option" where
  "text_of e = (case e of None \<Rightarrow> None | Some el \<Rightarrow> etext el)"

definition extract_edm_field_from_record :: "element \<Rightarrow> string \<Rightarrow> error + string" where
  "extract_edm_field_from_record record_el edm_field_qname =
     (case find_child (oai ''metadata'') record_el of
        None \<Rightarrow> Inr []
      | Some md \<Rightarrow>
          (case find_path (resolve_qname edm_field_qname) md of
             Inl e \<Rightarrow> Inl e
           | Inr el \<Rightarrow>
               if truthy (text_of el) then Inr (strip (the (text_of el)))
               else if edm_field_qname = ''edm:isShownAt'' then
                 (let el2 = element_or (find_desc (edm ''isShownBy'') md)
                                       (find_desc (dc ''identifier'') md)
                  in if truthy (text_of el2) then Inr (strip (the (text_of el2))) else Inr [])
               else Inr []))"

text \<open>
  The token of a page, as the loop of \<^verbatim>\<open>harvest\<close> reads it:
  \<^verbatim>\<open>rt = rt_el.text.strip() if rt_el is not None and rt_el.text else ""\<close>.
\<close>

definition next_token :: "element \<Rightarrow> string" where
  "next_token doc =
     (let rt_el = find_desc (oai ''resumptionToken'') doc in
      if truthy (text_of rt_el) then strip (the (text_of rt_el)) else [])"

section \<open>The envelope of an output file\<close>

definition wrapper_open_tag :: "string \<Rightarrow> string" where
  "wrapper_open_tag verb =
     (if verb = ''ListRecords'' then ''<OAI-PMH>\<newline><ListRecords>\<newline>''
      else if verb = ''ListIdentifiers'' then ''<OAI-PMH>\<newline><ListIdentifiers>\<newline>''
      else ''<OAI-PMH>\<newline>'')"

definition wrapper_close_tag :: "string \<Rightarrow> string" where
  "wrapper_close_tag verb =
     (if verb = ''ListRecords'' then ''</ListRecords>\<newline></OAI-PMH>\<newline>''
      else if verb = ''ListIdentifiers'' then ''</ListIdentifiers>\<newline></OAI-PMH>\<newline>''
      else ''</OAI-PMH>\<newline>'')"

text \<open>
  A file is its bytes, a \<open>char\<close> being one byte; the file system maps a path to the bytes
  of the file there. The envelope tags are ASCII, so their UTF-8 encoding is the text
  itself.
\<close>

type_synonym bytes = "char list"
type_synonym files = "string \<Rightarrow> bytes option"

text \<open>
  \<^verbatim>\<open>bytes.decode("utf-8", errors="ignore")\<close>, to a list of code points. A well-formed
  sequence of one to four bytes gives its code point; a byte that begins no well-formed
  sequence is dropped and decoding goes on with the next byte.
\<close>

definition continuation :: "char \<Rightarrow> bool" where
  "continuation c \<longleftrightarrow> (let n = of_char c :: nat in 128 \<le> n \<and> n \<le> 191)"

definition second_of_three :: "nat \<Rightarrow> char \<Rightarrow> bool" where
  "second_of_three lead c \<longleftrightarrow>
     (let n = of_char c :: nat
      in if lead = 224 then 160 \<le> n \<and> n \<le> 191
         else if lead = 237 then 128 \<le> n \<and> n \<le> 159
         else 128 \<le> n \<and> n \<le> 191)"

definition second_of_four :: "nat \<Rightarrow> char \<Rightarrow> bool" where
  "second_of_four lead c \<longleftrightarrow>
     (let n = of_char c :: nat
      in if lead = 240 then 144 \<le> n \<and> n \<le> 191
         else if lead = 244 then 128 \<le> n \<and> n \<le> 143
         else 128 \<le> n \<and> n \<le> 191)"

definition low6 :: "char \<Rightarrow> nat" where
  "low6 c = of_char c - 128"

fun utf8_decode_ignore :: "bytes \<Rightarrow> nat list" where
  "utf8_decode_ignore [] = []"
| "utf8_decode_ignore (b # bs) =
     (let n = of_char b :: nat in
      if n < 128 then n # utf8_decode_ignore bs
      else if 194 \<le> n \<and> n \<le> 223 then
        (case bs of
           c1 # r \<Rightarrow>
             if continuation c1 then ((n - 192) * 64 + low6 c1) # utf8_decode_ignore r
             else utf8_decode_ignore bs
         | _ \<Rightarrow> utf8_decode_ignore bs)
      else if 224 \<le> n \<and> n \<le> 239 then
        (case bs of
           c1 # c2 # r \<Rightarrow>
             if second_of_three n c1 \<and> continuation c2
             then ((n - 224) * 4096 + low6 c1 * 64 + low6 c2) # utf8_decode_ignore r
             else utf8_decode_ignore bs
         | _ \<Rightarrow> utf8_decode_ignore bs)
      else if 240 \<le> n \<and> n \<le> 244 then
        (case bs of
           c1 # c2 # c3 # r \<Rightarrow>
             if second_of_four n c1 \<and> continuation c2 \<and> continuation c3
             then ((n - 240) * 262144 + low6 c1 * 4096 + low6 c2 * 64 + low6 c3)
                  # utf8_decode_ignore r
             else utf8_decode_ignore bs
         | _ \<Rightarrow> utf8_decode_ignore bs)
      else utf8_decode_ignore bs)"

text \<open>
  \<^verbatim>\<open>s.rfind(sub)\<close>: the highest index at which \<open>sub\<close> occurs in \<open>s\<close>, or \<open>-1\<close>.
\<close>

fun rfind_from :: "'a list \<Rightarrow> 'a list \<Rightarrow> nat \<Rightarrow> int" where
  "rfind_from s sub 0 = (if take (length sub) s = sub then 0 else - 1)"
| "rfind_from s sub (Suc i) =
     (if take (length sub) (drop (Suc i) s) = sub then int (Suc i) else rfind_from s sub i)"

definition rfind :: "'a list \<Rightarrow> 'a list \<Rightarrow> int" where
  "rfind s sub = (if length s < length sub then - 1 else rfind_from s sub (length s - length sub))"

text \<open>
  \<^verbatim>\<open>ensure_open_wrapper(out_path, verb, logger)\<close> on the file system. A missing or empty
  file receives the opening tags. Otherwise the last \<open>min 8192 size\<close> bytes are read and
  decoded, the closing tags are looked for in the decoded text, and when they are found
  at index \<open>idx\<close> the file is cut at the byte offset \<open>size - tail_len + idx\<close>
  (\<^verbatim>\<open>f.seek(-tail_len + idx, os.SEEK_END); f.truncate()\<close>).
\<close>

definition ensure_open_wrapper :: "files \<Rightarrow> string \<Rightarrow> string \<Rightarrow> files" where
  "ensure_open_wrapper fs out_path verb =
     (let open_tag = wrapper_open_tag verb;
          close_tag = wrapper_close_tag verb
      in case fs out_path of
           None \<Rightarrow> fs(out_path \<mapsto> open_tag)
         | Some content \<Rightarrow>
             if length content = 0 then fs(out_path \<mapsto> open_tag)
             else
               (let tail_len = min 8192 (length content);
                    tail = utf8_decode_ignore (drop (length content - tail_len) content);
                    idx = rfind tail (map of_char close_tag)
                in if idx \<noteq> - 1
                   then fs(out_path \<mapsto> take (nat (int (length content) - int tail_len + idx)) content)
                   else fs))"

text \<open>\<^verbatim>\<open>write_close_wrapper(out_path, verb)\<close>: the closing tags are appended.\<close>

definition write_close_wrapper :: "files \<Rightarrow> string \<Rightarrow> string \<Rightarrow> files" where
  "write_close_wrapper fs out_path verb =
     fs(out_path \<mapsto> (case fs out_path of None \<Rightarrow> [] | Some content \<Rightarrow> content) @ wrapper_close_tag verb)"

text \<open>
  The byte offset at which the last occurrence of the closing tags begins in a file, for
  comparison with the cut \<open>ensure_open_wrapper\<close> makes.
\<close>

definition close_tag_offset :: "bytes \<Rightarrow> string \<Rightarrow> int" where
  "close_tag_offset content verb = rfind content (wrapper_close_tag verb)"

section \<open>The checkpoint\<close>

text \<open>The dictionary \<^verbatim>\<open>state\<close> that \<^verbatim>\<open>save_state\<close> writes as JSON.\<close>

record checkpoint =
  ck_base_url :: string
  ck_verb :: string
  ck_metadataPrefix :: "string option"
  ck_set :: "string option"
  ck_out_base :: string
  ck_file_index :: int
  ck_num_items :: int
  ck_resumptionToken :: string

definition state_path_for :: "string \<Rightarrow> string" where
  "state_path_for out_path = out_path @ ''.state.json''"

text \<open>
  \<^verbatim>\<open>load_state(path)\<close>. The decoder \<^verbatim>\<open>json.load\<close> is the parameter \<open>json_load\<close>, on the
  content of the file; \<open>None\<close> is the exception it raises on content that is not JSON,
  which \<^verbatim>\<open>load_state\<close> does not catch.
\<close>

definition load_state ::
  "(bytes \<Rightarrow> checkpoint option) \<Rightarrow> files \<Rightarrow> string \<Rightarrow> error + checkpoint option" where
  "load_state json_load fs path =
     (case fs path of
        None \<Rightarrow> Inr None
      | Some content \<Rightarrow>
          (case json_load content of
             None \<Rightarrow> Inl JSONDecodeError
           | Some st \<Rightarrow> Inr (Some st)))"

section \<open>The harvest of a paginated verb\<close>

text \<open>
  The arguments of \<^verbatim>\<open>harvest\<close>. \<open>base_name\<close> and \<open>ext\<close> are the two results of
  \<^verbatim>\<open>os.path.splitext(out_path)\<close>, the second already replaced by \<open>.xml\<close> when empty;
  numbers are Python's unbounded integers.
\<close>

record config =
  base_url :: string
  verb :: string
  metadata_prefix :: "string option"
  set_spec :: "string option"
  out_path :: string
  base_name :: string
  ext :: string
  max_items :: "int option"
  rotate_every :: "int option"
  dump_mode :: string
  edm_field :: "string option"

type_synonym params = "(string \<times> string) list"

definition paginated :: "string \<Rightarrow> bool" where
  "paginated v \<longleftrightarrow> v = ''ListRecords'' \<or> v = ''ListIdentifiers''"

definition oai_params_first_call :: "string \<Rightarrow> string option \<Rightarrow> string option \<Rightarrow> params" where
  "oai_params_first_call v prefix sset =
     [(''verb'', v)] @
     (if paginated v then
        (if truthy prefix then [(''metadataPrefix'', the prefix)] else []) @
        (if truthy sset then [(''set'', the sset)] else [])
      else [])"

definition resume_params :: "string \<Rightarrow> string \<Rightarrow> params" where
  "resume_params v rt = [(''verb'', v), (''resumptionToken'', rt)]"

text \<open>\<^verbatim>\<open>str(n)\<close> for an integer, in decimal.\<close>

fun str_nat :: "nat \<Rightarrow> string" where
  "str_nat n =
     (if n < 10 then [char_of (48 + n)]
      else str_nat (n div 10) @ [char_of (48 + n mod 10)])"

definition str_int :: "int \<Rightarrow> string" where
  "str_int i = (if i < 0 then ''-'' @ str_nat (nat (- i)) else str_nat (nat i))"

definition out_path_for_index :: "config \<Rightarrow> int \<Rightarrow> string" where
  "out_path_for_index cfg idx =
     (if idx > 1 then base_name cfg @ ''_part'' @ str_int idx @ ext cfg else out_path cfg)"

text \<open>
  What the run does to the outside world, one event for each call, in order:
  \<^item> \<open>Fetch\<close>: \<^verbatim>\<open>fetch_and_parse\<close> on the URL built from the parameters;
  \<^item> \<open>EnsureOpen\<close>: \<^verbatim>\<open>ensure_open_wrapper\<close> on a segment;
  \<^item> \<open>WriteItem\<close>: one element and a newline appended to a segment;
  \<^item> \<open>CsvRow\<close>, \<open>JsonlRow\<close>: one row appended to an export;
  \<^item> \<open>CloseWrapper\<close>: \<^verbatim>\<open>write_close_wrapper\<close> on a segment;
  \<^item> \<open>SaveState\<close>, \<open>RemoveState\<close>: the checkpoint written or deleted;
  \<^item> \<open>EmptyFile\<close>: the output opened for writing and closed at once;
  \<^item> \<open>WriteDocument\<close>: the whole answer of a verb without pages, in its envelope;
  \<^item> \<open>OpenCsv\<close>, \<open>CloseCsv\<close>, \<open>Sleep\<close>.
\<close>

datatype event =
    Fetch params
  | EnsureOpen string
  | WriteItem string element
  | CsvRow string string string
  | JsonlRow string string string
  | CloseWrapper string
  | SaveState checkpoint
  | RemoveState
  | EmptyFile string
  | WriteDocument string element
  | OpenCsv
  | CloseCsv
  | Sleep

text \<open>The variables of the loop, with the events so far.\<close>

record run =
  num_items :: int
  file_index :: int
  current_out :: string
  params :: params
  state :: "checkpoint option"
  page :: int
  events :: "event list"

datatype outcome =
    Completed run
  | Aborted error run
  | NotStarted error

definition emit :: "event list \<Rightarrow> run \<Rightarrow> run" where
  "emit evs st = st\<lparr>events := events st @ evs\<rparr>"

definition csv_on :: "config \<Rightarrow> bool" where
  "csv_on cfg \<longleftrightarrow> dump_mode cfg = ''csv'' \<or> dump_mode cfg = ''beide''"

definition jsonl_on :: "config \<Rightarrow> bool" where
  "jsonl_on cfg \<longleftrightarrow> dump_mode cfg = ''jsonl'' \<or> dump_mode cfg = ''beide''"

text \<open>\<^verbatim>\<open>max_items is not None and num_items >= max_items\<close>\<close>

definition limit_reached :: "config \<Rightarrow> run \<Rightarrow> bool" where
  "limit_reached cfg st = (case max_items cfg of None \<Rightarrow> False | Some m \<Rightarrow> num_items st \<ge> m)"

text \<open>
  The row of one element: identifier, datestamp and extracted value. A record without a
  header child makes \<^verbatim>\<open>header.findtext\<close> fail on \<^verbatim>\<open>None\<close>.
\<close>

definition item_row :: "config \<Rightarrow> element \<Rightarrow> error + (string \<times> string \<times> string)" where
  "item_row cfg el =
     (case (if verb cfg = ''ListRecords'' then find_child (oai ''header'') el else Some el) of
        None \<Rightarrow> Inl AttributeError
      | Some header \<Rightarrow>
          (let identifier = strip (findtext (oai ''identifier'') header);
               datestamp = strip (findtext (oai ''datestamp'') header)
           in if verb cfg = ''ListRecords'' \<and> truthy (edm_field cfg) then
                (case extract_edm_field_from_record el (the (edm_field cfg)) of
                   Inl e \<Rightarrow> Inl e
                 | Inr v \<Rightarrow> Inr (identifier, datestamp, v))
              else Inr (identifier, datestamp, [])))"

text \<open>
  \<^verbatim>\<open>for el in elements\<close>: the loop stops at the limit; an item is written to the
  segment before its row is built, so an exception of the row leaves the item written
  and not counted.
\<close>

fun write_items :: "config \<Rightarrow> element list \<Rightarrow> run \<Rightarrow> (error \<times> run) + run" where
  "write_items cfg [] st = Inr st"
| "write_items cfg (el # els) st =
     (if limit_reached cfg st then Inr st
      else
        (let st1 = emit [WriteItem (current_out st) el] st in
         case item_row cfg el of
           Inl e \<Rightarrow> Inl (e, st1)
         | Inr (identifier, datestamp, v) \<Rightarrow>
             write_items cfg els
               ((emit ((if csv_on cfg then [CsvRow identifier datestamp v] else []) @
                       (if jsonl_on cfg then [JsonlRow identifier datestamp v] else [])) st1)
                \<lparr>num_items := num_items st1 + 1\<rparr>)))"

definition select_elements :: "config \<Rightarrow> element \<Rightarrow> element list" where
  "select_elements cfg doc =
     (if verb cfg = ''ListRecords'' then findall_desc (oai ''record'') doc
      else findall_desc (oai ''header'') doc)"

text \<open>
  \<^verbatim>\<open>if rotate_every and num_items > 0 and (num_items % rotate_every == 0)\<close>, tested once
  after the items of a page.
\<close>

definition rotation_due :: "config \<Rightarrow> run \<Rightarrow> bool" where
  "rotation_due cfg st =
     (case rotate_every cfg of
        None \<Rightarrow> False
      | Some r \<Rightarrow> r \<noteq> 0 \<and> num_items st > 0 \<and> num_items st mod r = 0)"

definition rotation :: "config \<Rightarrow> run \<Rightarrow> run" where
  "rotation cfg st =
     (if rotation_due cfg st then
        (let next_out = out_path_for_index cfg (file_index st + 1) in
         (emit [CloseWrapper (current_out st), EnsureOpen next_out] st)
           \<lparr>file_index := file_index st + 1, current_out := next_out\<rparr>)
      else st)"

text \<open>
  \<^verbatim>\<open>state.update({...}); save_state(st_path, state)\<close>. The variable \<open>state\<close> is
  \<^verbatim>\<open>None\<close> after a declined resume, and \<^verbatim>\<open>None.update\<close> raises.
\<close>

definition update_state :: "string \<Rightarrow> run \<Rightarrow> (error \<times> run) + run" where
  "update_state rt st =
     (case state st of
        None \<Rightarrow> Inl (AttributeError, st)
      | Some ck \<Rightarrow>
          (let ck' = ck\<lparr>ck_file_index := file_index st, ck_num_items := num_items st,
                         ck_resumptionToken := rt\<rparr>
           in Inr ((emit [SaveState ck'] st)\<lparr>state := Some ck'\<rparr>)))"

text \<open>
  One turn of \<^verbatim>\<open>while True\<close> after the test of the limit, on the answer of
  \<^verbatim>\<open>fetch_and_parse\<close> (an error, or the parsed document): the page is counted and
  fetched, its items are written, the rotation is tested, the token is read and the
  checkpoint saved. The result is the new state and the token.
\<close>

definition page_step :: "config \<Rightarrow> error + element \<Rightarrow> run \<Rightarrow> (error \<times> run) + (run \<times> string)" where
  "page_step cfg answer st =
     (let st1 = (emit [Fetch (params st)] st)\<lparr>page := page st + 1\<rparr> in
      case answer of
        Inl e \<Rightarrow> Inl (e, st1)
      | Inr doc \<Rightarrow>
          (case write_items cfg (select_elements cfg doc) st1 of
             Inl x \<Rightarrow> Inl x
           | Inr st2 \<Rightarrow>
               (let rt = next_token doc in
                case update_state rt (rotation cfg st2) of
                  Inl x \<Rightarrow> Inl x
                | Inr st3 \<Rightarrow> Inr (st3, rt))))"

text \<open>After the loop: the segment is sealed and the checkpoint removed.\<close>

definition finish :: "run \<Rightarrow> outcome" where
  "finish st = Completed (emit [CloseWrapper (current_out st), RemoveState] st)"

text \<open>
  The loop \<^verbatim>\<open>while True\<close>, on the answers the server gives to the successive requests.
  \<open>None\<close> means that the loop asks for a page beyond the listed answers.
\<close>

fun harvest_loop :: "config \<Rightarrow> (error + element) list \<Rightarrow> run \<Rightarrow> outcome option" where
  "harvest_loop cfg answers st =
     (if limit_reached cfg st then Some (finish st)
      else
        (case answers of
           [] \<Rightarrow> None
         | answer # rest \<Rightarrow>
             (case page_step cfg answer st of
                Inl (e, st') \<Rightarrow> Some (Aborted e st')
              | Inr (st', rt) \<Rightarrow>
                  if rt = [] then Some (finish st')
                  else harvest_loop cfg rest
                         ((emit [Sleep] st')\<lparr>params := resume_params (verb cfg) rt\<rparr>))))"

text \<open>
  The choice between resuming and starting, on the loaded checkpoint and the operator's
  answer to \<^verbatim>\<open>yes_no("Hervatten met bestaande state")\<close>.
\<close>

definition fresh_checkpoint :: "config \<Rightarrow> checkpoint" where
  "fresh_checkpoint cfg =
     \<lparr>ck_base_url = base_url cfg, ck_verb = verb cfg, ck_metadataPrefix = metadata_prefix cfg,
      ck_set = set_spec cfg, ck_out_base = base_name cfg, ck_file_index = 1,
      ck_num_items = 0, ck_resumptionToken = []\<rparr>"

definition matching :: "config \<Rightarrow> checkpoint option \<Rightarrow> bool" where
  "matching cfg loaded =
     (case loaded of
        None \<Rightarrow> False
      | Some ck \<Rightarrow> ck_verb ck = verb cfg \<and> ck_out_base ck = base_name cfg)"

definition state_init :: "config \<Rightarrow> checkpoint option \<Rightarrow> bool \<Rightarrow> run" where
  "state_init cfg loaded resume =
     (if matching cfg loaded then
        (if resume then
           (let ck = the loaded; rt = ck_resumptionToken ck in
            \<lparr>num_items = ck_num_items ck, file_index = ck_file_index ck,
             current_out = out_path_for_index cfg (ck_file_index ck),
             params = (if rt \<noteq> [] then resume_params (verb cfg) rt
                       else oai_params_first_call (verb cfg) (ck_metadataPrefix ck) (ck_set ck)),
             state = loaded, page = 0, events = []\<rparr>)
         else
           \<lparr>num_items = 0, file_index = 1, current_out = out_path_for_index cfg 1,
            params = oai_params_first_call (verb cfg) (metadata_prefix cfg) (set_spec cfg),
            state = None, page = 0,
            events = [EmptyFile (out_path_for_index cfg 1), RemoveState]\<rparr>)
      else
        \<lparr>num_items = 0, file_index = 1, current_out = out_path_for_index cfg 1,
         params = oai_params_first_call (verb cfg) (metadata_prefix cfg) (set_spec cfg),
         state = Some (fresh_checkpoint cfg), page = 0,
         events = [SaveState (fresh_checkpoint cfg)]\<rparr>)"

text \<open>\<^verbatim>\<open>finally: close_csv()\<close> on every way out of the loop.\<close>

definition close_csv :: "config \<Rightarrow> outcome \<Rightarrow> outcome" where
  "close_csv cfg out =
     (if csv_on cfg then
        (case out of
           Completed st \<Rightarrow> Completed (emit [CloseCsv] st)
         | Aborted e st \<Rightarrow> Aborted e (emit [CloseCsv] st)
         | NotStarted e \<Rightarrow> NotStarted e)
      else out)"

text \<open>
  \<^verbatim>\<open>harvest\<close> from \<^verbatim>\<open>load_state\<close> on, after the two preflight requests. For a verb
  without pages the one answer is written in its envelope.
\<close>

definition harvest ::
  "config \<Rightarrow> (bytes \<Rightarrow> checkpoint option) \<Rightarrow> files \<Rightarrow> bool \<Rightarrow> (error + element) list \<Rightarrow>
   outcome option" where
  "harvest cfg json_load fs resume answers =
     (case load_state json_load fs (state_path_for (out_path cfg)) of
        Inl e \<Rightarrow> Some (NotStarted e)
      | Inr loaded \<Rightarrow>
          if \<not> paginated (verb cfg) then
            (case answers of
               [] \<Rightarrow> None
             | answer # _ \<Rightarrow>
                 (let ps = oai_params_first_call (verb cfg) (metadata_prefix cfg) (set_spec cfg);
                      st = \<lparr>num_items = 0, file_index = 1, current_out = out_path cfg,
                            params = ps, state = loaded, page = 0, events = [Fetch ps]\<rparr>
                  in case answer of
                       Inl e \<Rightarrow> Some (Aborted e st)
                     | Inr doc \<Rightarrow>
                         Some (Completed (emit [WriteDocument (out_path cfg) doc, RemoveState] st))))
          else
            (let st0 = state_init cfg loaded resume;
                 st1 = emit ([EnsureOpen (current_out st0)] @ (if csv_on cfg then [OpenCsv] else [])) st0
             in map_option (close_csv cfg) (harvest_loop cfg answers st1)))"

text \<open>Counting in the events of a run.\<close>

definition items_written :: "string \<Rightarrow> event list \<Rightarrow> nat" where
  "items_written p evs = length (filter (\<lambda>e. case e of WriteItem q _ \<Rightarrow> q = p | _ \<Rightarrow> False) evs)"

definition all_items_written :: "event list \<Rightarrow> nat" where
  "all_items_written evs = length (filter (\<lambda>e. case e of WriteItem _ _ \<Rightarrow> True | _ \<Rightarrow> False) evs)"

definition csv_rows :: "event list \<Rightarrow> nat" where
  "csv_rows evs = length (filter (\<lambda>e. case e of CsvRow _ _ _ \<Rightarrow> True | _ \<Rightarrow> False) evs)"

definition jsonl_rows :: "event list \<Rightarrow> nat" where
  "jsonl_rows evs = length (filter (\<lambda>e. case e of JsonlRow _ _ _ \<Rightarrow> True | _ \<Rightarrow> False) evs)"

definition fetches :: "event list \<Rightarrow> nat" where
  "fetches evs = length (filter (\<lambda>e. case e of Fetch _ \<Rightarrow> True | _ \<Rightarrow> False) evs)"

definition opens :: "string \<Rightarrow> event list \<Rightarrow> nat" where
  "opens p evs = count_list evs (EnsureOpen p)"

definition seals :: "string \<Rightarrow> event list \<Rightarrow> nat" where
  "seals p evs = count_list evs (CloseWrapper p)"

section \<open>Servers that offer enough items\<close>




section \<open>Predicates of the statements\<close>




definition blank_token :: "element \<Rightarrow> bool" where
  "blank_token doc =
     (case find_desc (oai ''resumptionToken'') doc of
        None \<Rightarrow> True
      | Some rt_el \<Rightarrow> (case etext rt_el of None \<Rightarrow> True | Some t \<Rightarrow> list_all is_space t))"

section \<open>Concrete inputs\<close>





text \<open>
  Headers, records and pages of both verbs, a harvest of records limited to 5 items with
  both exports, and a server of three pages with 4, 4 and 2 records. The file system
  without any file; a JSON decoder that accepts nothing.
\<close>

definition header_el :: "string \<Rightarrow> element" where
  "header_el i =
     Element (oai ''header'') None
       [Element (oai ''identifier'') (Some i) [],
        Element (oai ''datestamp'') (Some ''2024-05-01'') []]"

definition record_el :: "string \<Rightarrow> element" where
  "record_el i =
     Element (oai ''record'') None
       [header_el i,
        Element (oai ''metadata'') None
          [Element (edm ''isShownAt'') (Some (''http://example.org/'' @ i)) []]]"




definition no_files :: files where
  "no_files = (\<lambda>p. None)"

definition reject_all :: "bytes \<Rightarrow> checkpoint option" where
  "reject_all content = None"

text \<open>
  Pages of identifiers; a harvest of identifiers that rotates every 2 items, and a server
  of two pages with 3 and 1 headers; a page whose token is one space, and the run as it
  stands before the first request. Two records with an image link and no display link,
  the first with an identifier in its metadata. A sealed file with two accented letters
  (two bytes each) before the closing tags. A JSON decoder that rejects the text \<open>{\<close>,
  and a file system whose checkpoint file holds that text.
\<close>

definition identifiers_page :: "string list \<Rightarrow> string option \<Rightarrow> element" where
  "identifiers_page ids token =
     Element (oai ''OAI-PMH'') None
       [Element (oai ''ListIdentifiers'') None
          (map header_el ids @
           (case token of None \<Rightarrow> [] | Some t \<Rightarrow> [Element (oai ''resumptionToken'') (Some t) []]))]"

definition identifiers_cfg :: config where
  "identifiers_cfg =
     \<lparr>base_url = ''https://example.org/oai'', verb = ''ListIdentifiers'',
      metadata_prefix = Some ''edm'', set_spec = None, out_path = ''out.xml'',
      base_name = ''out'', ext = ''.xml'', max_items = None, rotate_every = Some 2,
      dump_mode = ''geen'', edm_field = None\<rparr>"

definition three_then_one :: "(error + element) list" where
  "three_then_one =
     [Inr (identifiers_page [''a'', ''b'', ''c''] (Some ''t1'')),
      Inr (identifiers_page [''d''] None)]"

definition blank_page :: element where
  "blank_page = identifiers_page [''a''] (Some '' '')"

definition start_run :: run where
  "start_run = emit [EnsureOpen ''out.xml''] (state_init identifiers_cfg None True)"

definition image_record :: element where
  "image_record =
     Element (oai ''record'') None
       [header_el ''obj-1'',
        Element (oai ''metadata'') None
          [Element (edm ''ProvidedCHO'') None
             [Element (dc ''identifier'') (Some ''obj-1'') []],
           Element (edm ''isShownBy'') (Some ''http://example.org/img.jpg'') []]]"

definition image_only_record :: element where
  "image_only_record =
     Element (oai ''record'') None
       [header_el ''obj-2'',
        Element (oai ''metadata'') None
          [Element (edm ''isShownBy'') (Some ''http://example.org/img.jpg'') []]]"

definition sealed_file :: bytes where
  "sealed_file =
     ''<OAI-PMH>\<newline><ListRecords>\<newline><r>caf'' @ [CHR 0xC3, CHR 0xA9] @ '' cr'' @
     [CHR 0xC3, CHR 0xA8] @ ''me</r>\<newline></ListRecords>\<newline></OAI-PMH>\<newline>''"

definition brace_rejected :: "bytes \<Rightarrow> checkpoint option" where
  "brace_rejected content =
     (if content = ''{'' then None else Some (fresh_checkpoint identifiers_cfg))"

definition corrupt_files :: files where
  "corrupt_files = no_files(''out.xml.state.json'' \<mapsto> ''{'')"

section \<open>Properties of the ampersand repair\<close>

lemma amp_not_alnum: "\<not> is_alnum CHR ''&''"
  by (simp add: is_alnum_def is_alpha_def is_digit_def)

lemma amp_fix_Cons_hd: "\<exists>t. amp_fix (c # cs) = c # t"
  by simp

lemma dropWhile_alnum_amp_fix:
  "dropWhile is_alnum (amp_fix cs) = amp_fix (dropWhile is_alnum cs)"
proof (induction cs)
  case Nil
  show ?case by simp
next
  case (Cons c cs)
  show ?case
  proof (cases "is_alnum c")
    case True
    then have "c \<noteq> CHR ''&''" using amp_not_alnum by auto
    with True Cons show ?thesis by simp
  next
    case False
    then show ?thesis using amp_not_alnum by simp
  qed
qed

lemma semicolon_head_amp_fix:
  "(case amp_fix xs of [] \<Rightarrow> False | d # _ \<Rightarrow> d = CHR '';'') =
   (case xs of [] \<Rightarrow> False | d # _ \<Rightarrow> d = CHR '';'')"
  by (cases xs) simp_all

lemma entity_tail_amp_fix: "entity_tail (amp_fix cs) = entity_tail cs"
proof (cases cs)
  case Nil
  then show ?thesis by simp
next
  case (Cons c rest)
  show ?thesis
  proof (cases "c = CHR ''&''")
    case True
    then show ?thesis using Cons
      by (simp add: entity_tail_def is_alpha_def)
  next
    case False
    then have "entity_tail (amp_fix cs) =
      ((is_alpha c \<or> c = CHR ''#'') \<and>
       (case dropWhile is_alnum (amp_fix rest) of [] \<Rightarrow> False | d # _ \<Rightarrow> d = CHR '';''))"
      using Cons by (simp add: entity_tail_def)
    then show ?thesis using Cons
      by (simp add: entity_tail_def dropWhile_alnum_amp_fix semicolon_head_amp_fix)
  qed
qed

lemma entity_tail_amp: "entity_tail (''amp;'' @ t)"
  by (simp add: entity_tail_def is_alpha_def is_alnum_def is_digit_def)

lemma no_bare_amp_amp_fix: "no_bare_amp (amp_fix s)"
proof (induction s)
  case Nil
  show ?case by simp
next
  case (Cons c cs)
  then show ?case
    using entity_tail_amp [of "amp_fix cs"]
    by (simp add: entity_tail_amp_fix)
qed

lemma amp_fix_fixed: "no_bare_amp t \<Longrightarrow> amp_fix t = t"
  by (induction t) auto







text \<open>
  C9. The repair pass is idempotent: a second pass over repaired text changes nothing.
\<close>

theorem amp_fix_idempotent: "amp_fix (amp_fix s) = amp_fix s"
  by (rule amp_fix_fixed [OF no_bare_amp_amp_fix])

section \<open>Properties of the download loop\<close>










section \<open>Properties of the harvest loop\<close>

declare harvest_loop.simps [simp del]

lemma counts_append [simp]:
  "all_items_written (xs @ ys) = all_items_written xs + all_items_written ys"
  "csv_rows (xs @ ys) = csv_rows xs + csv_rows ys"
  "jsonl_rows (xs @ ys) = jsonl_rows xs + jsonl_rows ys"
  "fetches (xs @ ys) = fetches xs + fetches ys"
  "opens p (xs @ ys) = opens p xs + opens p ys"
  "seals p (xs @ ys) = seals p xs + seals p ys"
  by (simp_all add: all_items_written_def csv_rows_def jsonl_rows_def fetches_def opens_def seals_def)

lemma emit_fields [simp]:
  "num_items (emit evs st) = num_items st"
  "file_index (emit evs st) = file_index st"
  "current_out (emit evs st) = current_out st"
  "params (emit evs st) = params st"
  "state (emit evs st) = state st"
  "page (emit evs st) = page st"
  "events (emit evs st) = events st @ evs"
  by (simp_all add: emit_def)

lemma limit_reached_cong [simp]:
  "limit_reached cfg (st\<lparr>events := evs\<rparr>) = limit_reached cfg st"
  "limit_reached cfg (emit es st) = limit_reached cfg st"
  by (simp_all add: limit_reached_def split: option.splits)






lemma update_state_frame:
  assumes "update_state rt st = Inr st'"
  shows "num_items st' = num_items st \<and> file_index st' = file_index st \<and>
         current_out st' = current_out st \<and> params st' = params st \<and> page st' = page st \<and>
         (\<exists>ck. state st' = Some ck \<and> ck_resumptionToken ck = rt \<and>
               ck_num_items ck = num_items st \<and> ck_file_index ck = file_index st \<and>
               events st' = events st @ [SaveState ck])"
  using assms by (auto simp: update_state_def Let_def split: option.splits)


lemma update_state_abort:
  assumes "update_state rt st = Inl (e, st')"
  shows "st' = st"
  using assms by (auto simp: update_state_def Let_def split: option.splits)








section \<open>The item limit\<close>





section \<open>Sealing of segments\<close>








lemma close_csv_cases:
  "close_csv cfg out =
     (case out of
        Completed s \<Rightarrow> Completed (if csv_on cfg then emit [CloseCsv] s else s)
      | Aborted e s \<Rightarrow> Aborted e (if csv_on cfg then emit [CloseCsv] s else s)
      | NotStarted e \<Rightarrow> NotStarted e)"
  by (cases out) (simp_all add: close_csv_def)






section \<open>The resumption token\<close>

lemma dropWhile_all: "list_all P t \<Longrightarrow> dropWhile P t = []"
  by (induction t) auto

lemma strip_blank: "list_all is_space t \<Longrightarrow> strip t = []"
  by (simp add: strip_def dropWhile_all)

lemma next_token_blank: "blank_token doc \<Longrightarrow> next_token doc = []"
  by (auto simp: blank_token_def next_token_def text_of_def truthy_def Let_def strip_blank
           split: option.splits)

lemma page_step_token:
  assumes "page_step cfg (Inr doc) st = Inr (st', rt)"
  shows "rt = next_token doc \<and>
         (\<exists>ck. state st' = Some ck \<and> ck_resumptionToken ck = next_token doc \<and>
               last (events st') = SaveState ck)"
proof -
  let ?st1 = "(emit [Fetch (params st)] st)\<lparr>page := page st + 1\<rparr>"
  obtain st2 where w: "write_items cfg (select_elements cfg doc) ?st1 = Inr st2"
    using assms by (auto simp: page_step_def Let_def split: sum.splits)
  have u: "update_state (next_token doc) (rotation cfg st2) = Inr st'" and r: "rt = next_token doc"
    using assms w by (auto simp: page_step_def Let_def split: sum.splits)
  obtain ck where "state st' = Some ck" and "ck_resumptionToken ck = next_token doc"
    and "events st' = events (rotation cfg st2) @ [SaveState ck]"
    using update_state_frame [OF u] by blast
  then show ?thesis using r by simp
qed

lemma harvest_loop_after_page:
  assumes "\<not> limit_reached cfg st" and "page_step cfg (Inr doc) st = Inr (st', rt)"
  shows "harvest_loop cfg (Inr doc # rest) st =
           (if next_token doc = [] then Some (finish st')
            else harvest_loop cfg rest
                   ((emit [Sleep] st')\<lparr>params := resume_params (verb cfg) (next_token doc)\<rparr>))"
  using assms page_step_token [OF assms(2)] by (simp add: harvest_loop.simps)

text \<open>
  C10. When the \<open>resumptionToken\<close> element of a page is absent, has no text or has only
  white space as text, the token the loop reads is empty. For every page that is
  processed, the token read is the stripped text, it is the token of the checkpoint saved
  for the page, and (the limit not being reached before the page) the loop ends after the
  page exactly when that token is empty, and otherwise goes on with the next request.
\<close>

theorem blank_token_ends_paging:
  "(blank_token doc \<longrightarrow> next_token doc = []) \<and>
   (page_step cfg (Inr doc) st = Inr (st', rt) \<longrightarrow>
      rt = next_token doc \<and>
      (\<exists>ck. state st' = Some ck \<and> ck_resumptionToken ck = next_token doc \<and>
            last (events st') = SaveState ck) \<and>
      (\<not> limit_reached cfg st \<longrightarrow>
         harvest_loop cfg (Inr doc # rest) st =
           (if next_token doc = [] then Some (finish st')
            else harvest_loop cfg rest
                   ((emit [Sleep] st')\<lparr>params := resume_params (verb cfg) (next_token doc)\<rparr>))))"
  using next_token_blank [of doc] page_step_token [of cfg doc st st' rt]
    harvest_loop_after_page [of cfg st doc st' rt rest]
  by blast

text \<open>
  C10, an instance: a page whose token is a single space is read as the empty token, the
  checkpoint saved for it holds the empty token, and the loop ends after it although
  further answers are listed.
\<close>

theorem blank_token_ends_paging_witness:
  "blank_token blank_page \<and> next_token blank_page = [] \<and>
   \<not> limit_reached identifiers_cfg start_run \<and>
   (case page_step identifiers_cfg (Inr blank_page) start_run of
      Inr (st', rt) \<Rightarrow>
        rt = [] \<and> map_option ck_resumptionToken (state st') = Some [] \<and>
        harvest_loop identifiers_cfg (Inr blank_page # three_then_one) start_run = Some (finish st')
    | Inl x \<Rightarrow> False)"
proof -
  have b: "blank_token blank_page" by code_simp
  have l: "\<not> limit_reached identifiers_cfg start_run"
    by (simp add: limit_reached_def identifiers_cfg_def)
  have "case page_step identifiers_cfg (Inr blank_page) start_run of
          Inr (st', rt) \<Rightarrow> True | Inl x \<Rightarrow> False"
    by code_simp
  then obtain st' rt where p: "page_step identifiers_cfg (Inr blank_page) start_run = Inr (st', rt)"
    by (auto split: sum.splits)
  note T = blank_token_ends_paging [of blank_page identifiers_cfg start_run st' rt three_then_one]
  from T b have n: "next_token blank_page = []" by blast
  from T p have r: "rt = next_token blank_page"
    and c: "\<exists>ck. state st' = Some ck \<and> ck_resumptionToken ck = next_token blank_page \<and>
            last (events st') = SaveState ck"
    by blast+
  from T p l have h: "harvest_loop identifiers_cfg (Inr blank_page # three_then_one) start_run =
      (if next_token blank_page = [] then Some (finish st')
       else harvest_loop identifiers_cfg three_then_one
              ((emit [Sleep] st')\<lparr>params := resume_params (verb identifiers_cfg) (next_token blank_page)\<rparr>))"
    by blast
  show ?thesis using b n l p r c h by auto
qed

section \<open>Loading the checkpoint\<close>

text \<open>
  C3, as the code has it. When the checkpoint file exists and its content is rejected by
  the JSON decoder, \<open>load_state\<close> raises the decoder's error, and so does the harvest,
  before any event: nothing is deleted, nothing is written, and the state is not taken as
  absent. A path without a file gives no state and no error.
\<close>

theorem corrupt_checkpoint_raises:
  "(fs (state_path_for (out_path cfg)) = Some content \<and> json_load content = None \<longrightarrow>
      load_state json_load fs (state_path_for (out_path cfg)) = Inl JSONDecodeError \<and>
      harvest cfg json_load fs resume answers = Some (NotStarted JSONDecodeError)) \<and>
   (fs path = None \<longrightarrow> load_state json_load fs path = Inr None)"
  by (simp add: load_state_def harvest_def)

text \<open>
  C3, an instance: the checkpoint file holds \<open>{\<close>, which the decoder rejects; loading
  raises and the harvest does not start. Without the file, loading gives no state.
\<close>

theorem corrupt_checkpoint_raises_witness:
  "corrupt_files (state_path_for (out_path identifiers_cfg)) = Some ''{'' \<and>
   brace_rejected ''{'' = None \<and>
   load_state brace_rejected corrupt_files (state_path_for (out_path identifiers_cfg)) =
     Inl JSONDecodeError \<and>
   harvest identifiers_cfg brace_rejected corrupt_files True three_then_one =
     Some (NotStarted JSONDecodeError) \<and>
   no_files ''out.xml.state.json'' = None \<and>
   load_state brace_rejected no_files ''out.xml.state.json'' = Inr None"
proof -
  have h1: "corrupt_files (state_path_for (out_path identifiers_cfg)) = Some ''{''"
    by (simp add: corrupt_files_def state_path_for_def identifiers_cfg_def)
  have h2: "brace_rejected ''{'' = None"
    by (simp add: brace_rejected_def)
  have h3: "no_files ''out.xml.state.json'' = None"
    by (simp add: no_files_def)
  note T = corrupt_checkpoint_raises [where fs = corrupt_files and cfg = identifiers_cfg
      and content = "''{''" and json_load = brace_rejected and resume = True
      and answers = three_then_one]
  note U = corrupt_checkpoint_raises [where fs = no_files and json_load = brace_rejected
      and path = "''out.xml.state.json''"]
  from T h1 h2 have a: "load_state brace_rejected corrupt_files
        (state_path_for (out_path identifiers_cfg)) = Inl JSONDecodeError"
    and b: "harvest identifiers_cfg brace_rejected corrupt_files True three_then_one =
        Some (NotStarted JSONDecodeError)"
    by blast+
  from U h3 have c: "load_state brace_rejected no_files ''out.xml.state.json'' = Inr None"
    by blast
  show ?thesis
    by (intro conjI) (rule h1 h2 a b h3 c)+
qed

text \<open>
  C3 as stated fails: on the checkpoint file that holds \<open>{\<close>, loading raises instead of
  returning no state.
\<close>

theorem corrupt_checkpoint_counterexample:
  "load_state brace_rejected corrupt_files (state_path_for ''out.xml'') = Inl JSONDecodeError \<and>
   load_state brace_rejected corrupt_files (state_path_for ''out.xml'') \<noteq> Inr None"
  by (simp add: load_state_def corrupt_files_def state_path_for_def brace_rejected_def)

section \<open>Rotation\<close>

text \<open>
  C1 on the code. With \<open>rotate_every = 2\<close> and two pages of 3 and 1 identifiers the
  count passes 2 inside the first page, and after that page it is 3, so no rotation takes
  place; the one rotation comes after the second page, at 4. The first segment is sealed
  with 4 items and the second with none, where two sealed segments of exactly 2 items
  each are expected.
\<close>

theorem rotation_only_between_pages:
  "(case harvest identifiers_cfg reject_all no_files True three_then_one of
      Some (Completed s) \<Rightarrow>
        num_items s = 4 \<and> file_index s = 2 \<and>
        items_written ''out.xml'' (events s) = 4 \<and>
        seals ''out.xml'' (events s) = 1 \<and>
        items_written ''out_part2.xml'' (events s) = 0 \<and>
        seals ''out_part2.xml'' (events s) = 1
    | _ \<Rightarrow> False)"
  by code_simp

section \<open>Field extraction\<close>

text \<open>
  C5 on the code. Both records lack \<open>edm:isShownAt\<close> and hold an \<open>edm:isShownBy\<close> element
  with text and without children. Such an element is false in \<^verbatim>\<open>a or b\<close>, so the
  extraction of \<open>edm:isShownAt\<close> passes it over: the first record yields its
  \<open>dc:identifier\<close>, the second the empty string, and neither the image link, which the
  direct extraction of \<open>edm:isShownBy\<close> does find.
\<close>

theorem image_fallback_skipped:
  "extract_edm_field_from_record image_record ''edm:isShownAt'' = Inr ''obj-1'' \<and>
   extract_edm_field_from_record image_only_record ''edm:isShownAt'' = Inr [] \<and>
   extract_edm_field_from_record image_only_record ''edm:isShownBy'' =
     Inr ''http://example.org/img.jpg''"
  by code_simp

section \<open>Reopening a sealed file\<close>

text \<open>
  C6 on the code. In the sealed file the closing tags begin at byte 44; the two accented
  letters before them take two bytes each and one position each in the decoded text, so
  the index found there is 42, and the file is cut at byte 42: the last two bytes of the
  harvested content are lost with the closing tags.
\<close>

theorem truncation_before_closing_tags:
  "close_tag_offset sealed_file ''ListRecords'' = 44 \<and>
   ensure_open_wrapper (no_files(''out.xml'' \<mapsto> sealed_file)) ''out.xml'' ''ListRecords'' ''out.xml'' =
     Some (take 42 sealed_file)"
  by code_simp

end
